theory Spec2Isabelle
  imports Main "HOL-Library.Char_ord" "HOL-Library.List_Lexorder" "HOL-Library.Word"
begin

section \<open>GST purchase register against GSTR-2B: the two reconciliation scripts\<close>

text \<open>
  The repository holds two scripts, \<^verbatim>\<open>app.py\<close> and \<^verbatim>\<open>app2.py\<close>. Both read a purchase
  register and a GSTR-2B statement, resolve the column headers, build the key
  \<^verbatim>\<open>GSTIN + "_" + Invoice_Number\<close>, classify every purchase row and aggregate the
  statuses. \<^verbatim>\<open>app.py\<close> classifies with a dictionary and a row loop, \<^verbatim>\<open>app2.py\<close> with a
  left merge and boolean masks. Definitions taken from \<^verbatim>\<open>app.py\<close> carry the prefix
  \<open>app_\<close>, those from \<^verbatim>\<open>app2.py\<close> the prefix \<open>app2_\<close>; what both files share
  (\<open>valid_gstin\<close>, the key, the aggregation chain) is defined once.

  Modelling decisions.

  \<^item> The GSTIN cell of a row is a \<^typ>\<open>string option\<close>: \<open>None\<close> is an empty cell
    (\<^verbatim>\<open>NaN\<close>), which \<^verbatim>\<open>str()\<close> and \<^verbatim>\<open>astype(str)\<close> turn into the text \<^verbatim>\<open>nan\<close>. The
    classified row keeps the cell as it is. An invoice number is its \<^verbatim>\<open>astype(str)\<close>
    text. A parsed date is an \<^typ>\<open>int option\<close>, \<open>None\<close> being \<^verbatim>\<open>NaT\<close>; the parsing
    itself is not modelled.
  \<^item> The model covers sheets whose three tax columns hold a whole number in every data
    row. pandas reads such a column as \<^verbatim>\<open>int64\<close>, here \<^typ>\<open>64 word\<close>, and
    \<^verbatim>\<open>fillna(0)\<close> finds nothing to fill in it. A tax column with an empty or a decimal
    cell is \<^verbatim>\<open>float64\<close> from the start; such sheets are outside the model.
  \<^item> The row loop of \<^verbatim>\<open>app.py\<close> works on the Python integers that \<^verbatim>\<open>iterrows\<close> and
    \<^verbatim>\<open>to_dict\<close> hand out, so its arithmetic is exact. The column arithmetic of
    \<^verbatim>\<open>app2.py\<close> is done by numpy: in \<^verbatim>\<open>int64\<close>, which wraps around, when every purchase
    row found a 2B row, and in \<^verbatim>\<open>float64\<close>, which rounds to 53 significant bits, when
    the merge left an empty 2B cell in some row. Both are written out on integers.
  \<^item> The pandas operations are modelled by what they are documented to do:
    \<^verbatim>\<open>rename\<close>, \<^verbatim>\<open>set_index(...).to_dict("index")\<close> (which raises \<^verbatim>\<open>ValueError\<close> on a
    non-unique index), \<^verbatim>\<open>merge(how="left")\<close> (one output row per matching right row, in
    left order), \<^verbatim>\<open>value_counts\<close>, \<^verbatim>\<open>groupby\<close> (which drops the rows whose key is
    \<^verbatim>\<open>NaN\<close>), \<^verbatim>\<open>unstack\<close>. On a purchase sheet with no data row the mask assignments
    of \<^verbatim>\<open>app2.py\<close> are taken to leave an empty result.
\<close>

subsection \<open>\<^verbatim>\<open>valid_gstin\<close>: the regular expression\<close>

text \<open>
  The pattern of both files is
  \<^verbatim>\<open>^[0-9]{2}[A-Z]{5}[0-9]{4}[A-Z]{1}[1-9A-Z]{1}Z[0-9A-Z]{1}$\<close>, used with
  \<^verbatim>\<open>re.match\<close>. A character class is a list of inclusive ranges; a pattern is a list
  of items: a class repeated a fixed number of times, a literal character, or \<^verbatim>\<open>$\<close>.
  \<^verbatim>\<open>re.match\<close> matches at the start of the string, so the leading \<^verbatim>\<open>^\<close> adds nothing.
  Without \<^verbatim>\<open>re.MULTILINE\<close>, Python's \<^verbatim>\<open>$\<close> matches at the end of the string and also
  just before a newline that is the last character.
\<close>

type_synonym cclass = "(char \<times> char) list"

definition in_class :: "cclass \<Rightarrow> char \<Rightarrow> bool" where
  "in_class cls c = list_ex (\<lambda>(lo, hi). lo \<le> c \<and> c \<le> hi) cls"

datatype rx = Cls cclass nat | Lit char | Eol

fun rx_match :: "rx list \<Rightarrow> string \<Rightarrow> bool" where
  "rx_match [] s = True"
| "rx_match (Cls cls n # rs) s =
     (n \<le> length s \<and> list_all (in_class cls) (take n s) \<and> rx_match rs (drop n s))"
| "rx_match (Lit c # rs) s =
     (case s of [] \<Rightarrow> False | x # xs \<Rightarrow> x = c \<and> rx_match rs xs)"
| "rx_match (Eol # rs) s = ((s = [] \<or> s = [CHR 0x0A]) \<and> rx_match rs s)"

definition gstin_pattern :: "rx list" where
  "gstin_pattern =
     [Cls [(CHR ''0'', CHR ''9'')] 2,
      Cls [(CHR ''A'', CHR ''Z'')] 5,
      Cls [(CHR ''0'', CHR ''9'')] 4,
      Cls [(CHR ''A'', CHR ''Z'')] 1,
      Cls [(CHR ''1'', CHR ''9''), (CHR ''A'', CHR ''Z'')] 1,
      Lit CHR ''Z'',
      Cls [(CHR ''0'', CHR ''9''), (CHR ''A'', CHR ''Z'')] 1,
      Eol]"

definition valid_gstin :: "string \<Rightarrow> bool" where
  "valid_gstin gstin = rx_match gstin_pattern gstin"

text \<open>
  The format as the specification words it, for comparison with the pattern: 15
  characters, 2 digits, 5 uppercase letters, 4 digits, 1 uppercase letter, 1 alphanumeric
  character, the letter Z, 1 alphanumeric character.
\<close>

definition is_digit :: "char \<Rightarrow> bool" where
  "is_digit c = (CHR ''0'' \<le> c \<and> c \<le> CHR ''9'')"

definition is_upper :: "char \<Rightarrow> bool" where
  "is_upper c = (CHR ''A'' \<le> c \<and> c \<le> CHR ''Z'')"

definition is_lower :: "char \<Rightarrow> bool" where
  "is_lower c = (CHR ''a'' \<le> c \<and> c \<le> CHR ''z'')"

definition is_alnum :: "char \<Rightarrow> bool" where
  "is_alnum c = (is_digit c \<or> is_upper c \<or> is_lower c)"

definition all_at :: "(char \<Rightarrow> bool) \<Rightarrow> string \<Rightarrow> nat \<Rightarrow> nat \<Rightarrow> bool" where
  "all_at P s k n = list_all (\<lambda>i. P (s ! i)) [k ..< k + n]"

definition spec_gstin_format :: "string \<Rightarrow> bool" where
  "spec_gstin_format s =
     (length s = 15 \<and> all_at is_digit s 0 2 \<and> all_at is_upper s 2 5 \<and>
      all_at is_digit s 7 4 \<and> is_upper (s ! 11) \<and> is_alnum (s ! 12) \<and>
      s ! 13 = CHR ''Z'' \<and> is_alnum (s ! 14))"

text \<open>The format the pattern describes, position by position.\<close>

definition is_entity_code :: "char \<Rightarrow> bool" where
  "is_entity_code c = ((CHR ''1'' \<le> c \<and> c \<le> CHR ''9'') \<or> is_upper c)"

definition is_check_char :: "char \<Rightarrow> bool" where
  "is_check_char c = (is_digit c \<or> is_upper c)"

definition gstin_format :: "string \<Rightarrow> bool" where
  "gstin_format s =
     (length s = 15 \<and> all_at is_digit s 0 2 \<and> all_at is_upper s 2 5 \<and>
      all_at is_digit s 7 4 \<and> is_upper (s ! 11) \<and> is_entity_code (s ! 12) \<and>
      s ! 13 = CHR ''Z'' \<and> is_check_char (s ! 14))"

definition ends_with_newline :: "string \<Rightarrow> bool" where
  "ends_with_newline s = (s \<noteq> [] \<and> last s = CHR 0x0A)"

subsection \<open>Rows, tables and errors\<close>

text \<open>
  \<open>canon\<close> is a row as \<^verbatim>\<open>read_excel\<close>, \<^verbatim>\<open>to_datetime(errors="coerce")\<close> and
  \<^verbatim>\<open>fillna(0)\<close> leave it. A table is its header row and its rows; the fields of a row
  are read only after the header they belong to has been found.
\<close>

type_synonym int64 = "64 word"

record canon =
  GSTIN :: "string option"
  Invoice_Number :: string
  Invoice_Date :: "int option"
  CGST :: int64
  SGST :: int64
  IGST :: int64

record result = canon +
  Status :: string
  Remark :: string

record table =
  headers :: "string list"
  body :: "canon list"

datatype dataset = Purchase | Reference

text \<open>
  \<open>SchemaError d c\<close> is \<^verbatim>\<open>st.error\<close> with a message that names the file \<open>d\<close> and the
  column \<open>c\<close>, followed by \<^verbatim>\<open>st.stop()\<close>. \<open>KeyError c\<close> is the uncaught exception of
  \<^verbatim>\<open>df[c]\<close> on a frame with no column \<open>c\<close>; it carries the column name only.
  \<open>ValueError\<close> is the exception of \<^verbatim>\<open>to_dict("index")\<close> on a non-unique index.
  \<open>TypeError\<close> is the exception of \<^verbatim>\<open>sorted\<close> on a list that holds a text and a
  \<^verbatim>\<open>NaN\<close>.
\<close>

datatype error = SchemaError dataset string | KeyError string | ValueError | TypeError

subsection \<open>Header resolution\<close>

text \<open>
  \<^verbatim>\<open>columns.str.strip()\<close> removes the white space of Python's \<^verbatim>\<open>str.isspace\<close> from
  both ends; among the characters below 256 these are the ten ASCII ones, U+0085 and
  U+00A0.
\<close>

definition is_space :: "char \<Rightarrow> bool" where
  "is_space c = (c \<in> set [CHR 0x09, CHR 0x0A, CHR 0x0B, CHR 0x0C, CHR 0x0D,
                           CHR 0x1C, CHR 0x1D, CHR 0x1E, CHR 0x1F, CHR 0x20,
                           CHR 0x85, CHR 0xA0])"

definition strip :: "string \<Rightarrow> string" where
  "strip s = rev (dropWhile is_space (rev (dropWhile is_space s)))"

definition rename :: "(string \<times> string) list \<Rightarrow> string list \<Rightarrow> string list" where
  "rename m cols = map (\<lambda>c. case map_of m c of None \<Rightarrow> c | Some c' \<Rightarrow> c') cols"

definition app_rename_map :: "(string \<times> string) list" where
  "app_rename_map =
     [(''GSTIN'', ''GSTIN''),
      (''Invoice Number'', ''Invoice_Number''),
      (''Invoice No'', ''Invoice_Number''),
      (''Invoice Date'', ''Invoice_Date''),
      (''Invoice_Date'', ''Invoice_Date''),
      (''CGST'', ''CGST''),
      (''SGST'', ''SGST''),
      (''IGST'', ''IGST'')]"

definition app2_rename_map :: "(string \<times> string) list" where
  "app2_rename_map =
     [(''Invoice Number'', ''Invoice_Number''),
      (''Invoice No'', ''Invoice_Number''),
      (''Invoice Date'', ''Invoice_Date''),
      (''GSTIN'', ''GSTIN''),
      (''CGST'', ''CGST''),
      (''SGST'', ''SGST''),
      (''IGST'', ''IGST'')]"

definition app_columns :: "table \<Rightarrow> string list" where
  "app_columns t = rename app_rename_map (map strip (headers t))"

definition app2_columns :: "table \<Rightarrow> string list" where
  "app2_columns t = rename app2_rename_map (map strip (headers t))"

subsection \<open>The validation column and the key\<close>

text \<open>\<^verbatim>\<open>str()\<close> and \<^verbatim>\<open>astype(str)\<close> on a GSTIN cell.\<close>

definition str_cell :: "string option \<Rightarrow> string" where
  "str_cell c = (case c of None \<Rightarrow> ''nan'' | Some s \<Rightarrow> s)"

text \<open>\<^verbatim>\<open>purchase_df["GSTIN"].apply(valid_gstin)\<close>, one row of it.\<close>

definition GSTIN_Valid :: "canon \<Rightarrow> bool" where
  "GSTIN_Valid r = valid_gstin (str_cell (GSTIN r))"

definition join_key :: "string \<Rightarrow> string \<Rightarrow> string" where
  "join_key gstin invoice_number = gstin @ ''_'' @ invoice_number"

definition KEY :: "canon \<Rightarrow> string" where
  "KEY r = join_key (str_cell (GSTIN r)) (Invoice_Number r)"

subsection \<open>Python's \<^verbatim>\<open>str\<close> of an integer\<close>

function digits :: "int \<Rightarrow> string" where
  "digits n =
     (if n < 10 then [''0123456789'' ! nat n]
      else digits (n div 10) @ [''0123456789'' ! nat (n mod 10)])"
  by pat_completeness auto
termination
  by (relation "measure nat") auto

definition str_int :: "int \<Rightarrow> string" where
  "str_int i = (if i < 0 then ''-'' @ digits (- i) else digits i)"

subsection \<open>\<^verbatim>\<open>app.py\<close>: dictionary and row loop\<close>

text \<open>
  \<^verbatim>\<open>b2b_df.set_index("KEY").to_dict("index")\<close>: pandas refuses a non-unique index for
  this orientation and raises \<^verbatim>\<open>ValueError\<close>; otherwise every key maps to its row.
\<close>

definition b2b_dict :: "canon list \<Rightarrow> error + (string \<rightharpoonup> canon)" where
  "b2b_dict b2b =
     (if distinct (map KEY b2b) then Inr (map_of (map (\<lambda>r. (KEY r, r)) b2b))
      else Inl ValueError)"

text \<open>
  The amounts of \<^verbatim>\<open>row\<close> and \<^verbatim>\<open>b2b_row\<close> are Python integers (the signed values of
  the \<^verbatim>\<open>int64\<close> cells), and so is their \<^verbatim>\<open>tax_diff\<close>.
\<close>

definition tax_diff :: "canon \<Rightarrow> canon \<Rightarrow> int" where
  "tax_diff row b2b_row =
     \<bar>sint (CGST row) - sint (CGST b2b_row)\<bar> +
     \<bar>sint (SGST row) - sint (SGST b2b_row)\<bar> +
     \<bar>sint (IGST row) - sint (IGST b2b_row)\<bar>"

definition app_status :: "(string \<rightharpoonup> canon) \<Rightarrow> canon \<Rightarrow> string \<times> string" where
  "app_status d row =
     (if \<not> GSTIN_Valid row then (''Invalid GSTIN'', '''')
      else
        (case d (KEY row) of
           None \<Rightarrow> (''Missing in 2B'', ''Invoice not available in GSTR-2B'')
         | Some b2b_row \<Rightarrow>
             if tax_diff row b2b_row \<noteq> 0
             then (''Mismatch'', ''Tax Difference = '' @ str_int (tax_diff row b2b_row))
             else (''Matched'', '''')))"

definition app_classify :: "(string \<rightharpoonup> canon) \<Rightarrow> canon \<Rightarrow> result" where
  "app_classify d row =
     \<lparr>GSTIN = GSTIN row, Invoice_Number = Invoice_Number row,
      Invoice_Date = Invoice_Date row,
      CGST = CGST row, SGST = SGST row, IGST = IGST row,
      Status = fst (app_status d row), Remark = snd (app_status d row)\<rparr>"

definition app_engine :: "canon list \<Rightarrow> canon list \<Rightarrow> error + result list" where
  "app_engine purchase b2b =
     (case b2b_dict b2b of
        Inl e \<Rightarrow> Inl e
      | Inr d \<Rightarrow> Inr (map (app_classify d) purchase))"

text \<open>
  The column reads of \<^verbatim>\<open>app.py\<close> after the two \<^verbatim>\<open>Invoice_Date\<close> checks, in program
  order (the \<^verbatim>\<open>fillna\<close> loop, the validation column, the two keys); the first read of
  an absent column raises \<^verbatim>\<open>KeyError\<close>.
\<close>

definition app_reads :: "(dataset \<times> string) list" where
  "app_reads =
     [(Purchase, ''CGST''), (Reference, ''CGST''),
      (Purchase, ''SGST''), (Reference, ''SGST''),
      (Purchase, ''IGST''), (Reference, ''IGST''),
      (Purchase, ''GSTIN''),
      (Purchase, ''GSTIN''), (Purchase, ''Invoice_Number''),
      (Reference, ''GSTIN''), (Reference, ''Invoice_Number'')]"

fun first_missing :: "(dataset \<times> string) list \<Rightarrow> string list \<Rightarrow> string list \<Rightarrow> error option" where
  "first_missing [] pc bc = None"
| "first_missing ((d, col) # rest) pc bc =
     (if col \<in> set (case d of Purchase \<Rightarrow> pc | Reference \<Rightarrow> bc)
      then first_missing rest pc bc else Some (KeyError col))"

definition app_run :: "table \<Rightarrow> table \<Rightarrow> error + result list" where
  "app_run purchase b2b =
     (if ''Invoice_Date'' \<notin> set (app_columns purchase)
        then Inl (SchemaError Purchase ''Invoice_Date'')
      else if ''Invoice_Date'' \<notin> set (app_columns b2b)
        then Inl (SchemaError Reference ''Invoice_Date'')
      else
        (case first_missing app_reads (app_columns purchase) (app_columns b2b) of
           Some e \<Rightarrow> Inl e
         | None \<Rightarrow> app_engine (body purchase) (body b2b)))"

subsection \<open>\<^verbatim>\<open>app2.py\<close>: left merge and masks\<close>

definition required_cols :: "string list" where
  "required_cols = [''GSTIN'', ''Invoice_Number'', ''Invoice_Date'', ''CGST'', ''SGST'', ''IGST'']"

fun app2_check :: "string list \<Rightarrow> string list \<Rightarrow> string list \<Rightarrow> error option" where
  "app2_check [] pc bc = None"
| "app2_check (col # cols) pc bc =
     (if col \<notin> set pc then Some (SchemaError Purchase col)
      else if col \<notin> set bc then Some (SchemaError Reference col)
      else app2_check cols pc bc)"

text \<open>
  A row of \<^verbatim>\<open>merged_df\<close>: the purchase row and the three columns taken from the 2B
  frame, \<^verbatim>\<open>NaN\<close> (\<open>None\<close>) where no 2B row has the key.
\<close>

record merged =
  left :: canon
  CGST_2B :: "int64 option"
  SGST_2B :: "int64 option"
  IGST_2B :: "int64 option"

definition unmatched :: "canon \<Rightarrow> merged" where
  "unmatched p = \<lparr>left = p, CGST_2B = None, SGST_2B = None, IGST_2B = None\<rparr>"

definition matched :: "canon \<Rightarrow> canon \<Rightarrow> merged" where
  "matched p b =
     \<lparr>left = p, CGST_2B = Some (CGST b), SGST_2B = Some (SGST b), IGST_2B = Some (IGST b)\<rparr>"

text \<open>
  \<^verbatim>\<open>purchase_df.merge(b2b_df[["KEY","CGST","SGST","IGST"]], on="KEY", how="left")\<close>:
  every purchase row, in order, once for each 2B row with its key (in 2B order), or once
  with empty 2B columns when no 2B row has its key.
\<close>

definition merge_rows :: "canon list \<Rightarrow> canon \<Rightarrow> merged list" where
  "merge_rows b2b p =
     (case filter (\<lambda>b. KEY b = KEY p) b2b of
        [] \<Rightarrow> [unmatched p]
      | b # bs \<Rightarrow> map (matched p) (b # bs))"

definition merge_left :: "canon list \<Rightarrow> canon list \<Rightarrow> merged list" where
  "merge_left purchase b2b = concat (map (merge_rows b2b) purchase)"

text \<open>
  The three 2B columns of \<^verbatim>\<open>merged_df\<close> stay \<^verbatim>\<open>int64\<close> when every row has a 2B
  value; one empty cell turns them into \<^verbatim>\<open>float64\<close> columns.
\<close>

datatype dtype = Int64 | Float64

definition dtype_2B :: "merged list \<Rightarrow> dtype" where
  "dtype_2B ms = (if list_ex (\<lambda>m. CGST_2B m = None) ms then Float64 else Int64)"

text \<open>
  \<^verbatim>\<open>int64\<close> arithmetic keeps the low 64 bits of the exact result, read as a signed
  number.
\<close>

definition wrap64 :: "int \<Rightarrow> int" where
  "wrap64 x = (x + 2 ^ 63) mod 2 ^ 64 - 2 ^ 63"

text \<open>
  \<^verbatim>\<open>float64\<close> arithmetic on whole numbers: the exact result rounded to 53 significant
  bits, ties to the even neighbour. \<open>round_half_even k x\<close> is the multiple of \<open>2 ^ k\<close>
  nearest to \<open>x\<close>. (No value met here leaves the range of \<^verbatim>\<open>float64\<close>.)
\<close>

function bit_length :: "int \<Rightarrow> nat" where
  "bit_length x = (if x \<le> 0 then 0 else Suc (bit_length (x div 2)))"
  by pat_completeness auto
termination
  by (relation "measure nat") auto

definition round_half_even :: "nat \<Rightarrow> int \<Rightarrow> int" where
  "round_half_even k x =
     (if k = 0 then x
      else
        (let q = x div 2 ^ k; r = x mod 2 ^ k; h = 2 ^ (k - 1)
         in (if h < r \<or> (r = h \<and> odd q) then q + 1 else q) * 2 ^ k))"

definition f64 :: "int \<Rightarrow> int" where
  "f64 x = round_half_even (bit_length \<bar>x\<bar> - 53) x"

text \<open>
  \<^verbatim>\<open>(a - b).abs().fillna(0)\<close> on one cell, \<open>a\<close> from the purchase column (\<^verbatim>\<open>int64\<close>)
  and \<open>b\<close> from the 2B column of type \<open>dt\<close>. An empty \<open>b\<close> occurs in a \<^verbatim>\<open>float64\<close>
  column only and gives \<^verbatim>\<open>NaN\<close>, which \<^verbatim>\<open>fillna(0)\<close> replaces by 0. In a \<^verbatim>\<open>float64\<close>
  column \<open>b\<close> was converted by the merge and \<open>a\<close> is converted by the subtraction.
\<close>

definition abs_diff_fillna :: "dtype \<Rightarrow> int64 \<Rightarrow> int64 option \<Rightarrow> int" where
  "abs_diff_fillna dt a b =
     (case b of
        None \<Rightarrow> 0
      | Some y \<Rightarrow>
          (case dt of
             Int64 \<Rightarrow> wrap64 \<bar>wrap64 (sint a - sint y)\<bar>
           | Float64 \<Rightarrow> \<bar>f64 (f64 (sint a) - f64 (sint y))\<bar>))"

definition add_col :: "dtype \<Rightarrow> int \<Rightarrow> int \<Rightarrow> int" where
  "add_col dt x y = (case dt of Int64 \<Rightarrow> wrap64 (x + y) | Float64 \<Rightarrow> f64 (x + y))"

definition Tax_Diff :: "dtype \<Rightarrow> merged \<Rightarrow> int" where
  "Tax_Diff dt m =
     add_col dt
       (add_col dt (abs_diff_fillna dt (CGST (left m)) (CGST_2B m))
                   (abs_diff_fillna dt (SGST (left m)) (SGST_2B m)))
       (abs_diff_fillna dt (IGST (left m)) (IGST_2B m))"

text \<open>The mask assignments of \<^verbatim>\<open>app2.py\<close>, one \<open>let\<close> per assignment, in program order.\<close>

definition app2_status :: "dtype \<Rightarrow> merged \<Rightarrow> string \<times> string" where
  "app2_status dt m =
     (let gstin_valid = GSTIN_Valid (left m);
          status0 = ''Matched'';
          remark0 = '''';
          status1 = (if \<not> gstin_valid then ''Invalid GSTIN'' else status0);
          missing_mask = (CGST_2B m = None);
          status2 = (if missing_mask \<and> gstin_valid then ''Missing in 2B'' else status1);
          remark2 = (if missing_mask \<and> gstin_valid then ''Invoice not in 2B'' else remark0);
          mismatch_mask = (Tax_Diff dt m \<noteq> 0 \<and> \<not> missing_mask);
          status3 = (if mismatch_mask \<and> gstin_valid then ''Mismatch'' else status2);
          remark3 = (if mismatch_mask \<and> gstin_valid then ''Tax Difference'' else remark2)
      in (status3, remark3))"

definition app2_classify :: "dtype \<Rightarrow> merged \<Rightarrow> result" where
  "app2_classify dt m =
     \<lparr>GSTIN = GSTIN (left m), Invoice_Number = Invoice_Number (left m),
      Invoice_Date = Invoice_Date (left m),
      CGST = CGST (left m), SGST = SGST (left m), IGST = IGST (left m),
      Status = fst (app2_status dt m), Remark = snd (app2_status dt m)\<rparr>"

definition app2_engine :: "canon list \<Rightarrow> canon list \<Rightarrow> result list" where
  "app2_engine purchase b2b =
     (let merged_df = merge_left purchase b2b
      in map (app2_classify (dtype_2B merged_df)) merged_df)"

definition app2_run :: "table \<Rightarrow> table \<Rightarrow> error + result list" where
  "app2_run purchase b2b =
     (case app2_check required_cols (app2_columns purchase) (app2_columns b2b) of
        Some e \<Rightarrow> Inl e
      | None \<Rightarrow> Inr (app2_engine (body purchase) (body b2b)))"

text \<open>
  The amounts of a row are small when each is below \<open>2 ^ 50\<close> in magnitude; on small
  amounts neither \<^verbatim>\<open>int64\<close> nor \<^verbatim>\<open>float64\<close> arithmetic loses anything.
\<close>

definition small_amounts :: "canon \<Rightarrow> bool" where
  "small_amounts r =
     (\<bar>sint (CGST r)\<bar> < 2 ^ 50 \<and> \<bar>sint (SGST r)\<bar> < 2 ^ 50 \<and> \<bar>sint (IGST r)\<bar> < 2 ^ 50)"

subsection \<open>Aggregation\<close>

text \<open>
  \<^verbatim>\<open>Series.value_counts()\<close>: one entry per value that occurs, with its number of
  occurrences (the order of the entries is not modelled).
\<close>

definition value_counts :: "'a list \<Rightarrow> ('a \<times> nat) list" where
  "value_counts xs = map (\<lambda>v. (v, count_list xs v)) (remdups xs)"

text \<open>
  \<^verbatim>\<open>groupby("GSTIN")["Status"].value_counts().unstack().fillna(0)\<close>: the rows with an
  empty GSTIN cell are dropped; the counts of the (GSTIN, Status) pairs of the others are
  pivoted into a frame whose row labels are the GSTINs and whose column labels are the
  statuses of the pairs, both sorted; a cell with no pair is \<^verbatim>\<open>NaN\<close> and becomes 0.
\<close>

record 'c frame =
  index :: "string list"
  columns :: "string list"
  cell :: "string \<Rightarrow> string \<Rightarrow> 'c"

definition dropna_pairs :: "result list \<Rightarrow> (string \<times> string) list" where
  "dropna_pairs df =
     concat (map (\<lambda>r. case GSTIN r of None \<Rightarrow> [] | Some g \<Rightarrow> [(g, Status r)]) df)"

definition groupby_value_counts :: "result list \<Rightarrow> ((string \<times> string) \<times> nat) list" where
  "groupby_value_counts df = value_counts (dropna_pairs df)"

definition unstack :: "((string \<times> string) \<times> nat) list \<Rightarrow> (nat option) frame" where
  "unstack s =
     \<lparr>index = sort (remdups (map (\<lambda>((g, st), n). g) s)),
      columns = sort (remdups (map (\<lambda>((g, st), n). st) s)),
      cell = (\<lambda>g st. map_of s (g, st))\<rparr>"

definition fillna_frame :: "nat \<Rightarrow> (nat option) frame \<Rightarrow> nat frame" where
  "fillna_frame z f =
     \<lparr>index = index f, columns = columns f,
      cell = (\<lambda>g st. case cell f g st of None \<Rightarrow> z | Some n \<Rightarrow> n)\<rparr>"

definition vendor_summary :: "result list \<Rightarrow> nat frame" where
  "vendor_summary df = fillna_frame 0 (unstack (groupby_value_counts df))"


text \<open>
  The dashboard of \<^verbatim>\<open>app.py\<close> reads \<^verbatim>\<open>result_df["Status"]\<close>; \<^verbatim>\<open>pd.DataFrame([])\<close> has
  no columns, so with no purchase row the read raises \<^verbatim>\<open>KeyError\<close>. \<^verbatim>\<open>app2.py\<close>
  aggregates the frame left by the sidebar filters; the model takes the state with no
  filter chosen, where that frame is the whole result.
\<close>

definition app_aggregate :: "result list \<Rightarrow> error + ((string \<times> nat) list \<times> nat frame)" where
  "app_aggregate df =
     (if df = [] then Inl (KeyError ''Status'')
      else Inr (value_counts (map Status df), vendor_summary df))"

definition app2_aggregate :: "result list \<Rightarrow> (string \<times> nat) list \<times> nat frame" where
  "app2_aggregate df = (value_counts (map Status df), vendor_summary df)"

text \<open>
  Before it aggregates, \<^verbatim>\<open>app2.py\<close> fills the vendor filter of the sidebar with
  \<^verbatim>\<open>sorted(result_df["GSTIN"].unique())\<close>. Sorting compares the values, and Python
  refuses to compare a text with the \<^verbatim>\<open>NaN\<close> of an empty cell: when the column holds
  both, the run ends there with \<^verbatim>\<open>TypeError\<close>.
\<close>

definition app2_sidebar :: "result list \<Rightarrow> error option" where
  "app2_sidebar df =
     (if list_ex (\<lambda>r. GSTIN r = None) df \<and> list_ex (\<lambda>r. GSTIN r \<noteq> None) df
      then Some TypeError else None)"

definition app2_dashboard :: "result list \<Rightarrow> error + ((string \<times> nat) list \<times> nat frame)" where
  "app2_dashboard df =
     (case app2_sidebar df of Some e \<Rightarrow> Inl e | None \<Rightarrow> Inr (app2_aggregate df))"

text \<open>
  The four cards of both dashboards, each a \<^verbatim>\<open>len\<close> of the frame or of a filtered
  frame: all rows, and the rows with status \<^verbatim>\<open>Matched\<close>, \<^verbatim>\<open>Missing in 2B\<close> and
  \<^verbatim>\<open>Mismatch\<close>. There is no card for \<^verbatim>\<open>Invalid GSTIN\<close>.
\<close>

definition metrics :: "result list \<Rightarrow> nat \<times> nat \<times> nat \<times> nat" where
  "metrics df =
     (length df,
      length (filter (\<lambda>r. Status r = ''Matched'') df),
      length (filter (\<lambda>r. Status r = ''Missing in 2B'') df),
      length (filter (\<lambda>r. Status r = ''Mismatch'') df))"

definition purchase_fields :: "result \<Rightarrow> canon" where
  "purchase_fields r =
     \<lparr>GSTIN = GSTIN r, Invoice_Number = Invoice_Number r, Invoice_Date = Invoice_Date r,
      CGST = CGST r, SGST = SGST r, IGST = IGST r\<rparr>"

text \<open>The classified rows of one purchase row, as (Status, Remark) pairs.\<close>

definition outcomes :: "result list \<Rightarrow> canon \<Rightarrow> (string \<times> string) list" where
  "outcomes df p = map (\<lambda>r. (Status r, Remark r)) (filter (\<lambda>r. purchase_fields r = p) df)"

subsection \<open>The scenarios of the specification, as data\<close>

definition inv001 :: canon where
  "inv001 =
     \<lparr>GSTIN = Some ''27AAAPL1234C1Z5'', Invoice_Number = ''INV001'', Invoice_Date = Some 0,
      CGST = 100, SGST = 100, IGST = 0\<rparr>"

definition inv001_cgst90 :: canon where
  "inv001_cgst90 =
     \<lparr>GSTIN = Some ''27AAAPL1234C1Z5'', Invoice_Number = ''INV001'', Invoice_Date = Some 0,
      CGST = 90, SGST = 100, IGST = 0\<rparr>"

definition bad001 :: canon where
  "bad001 =
     \<lparr>GSTIN = Some ''INVALID123'', Invoice_Number = ''INV001'', Invoice_Date = Some 0,
      CGST = 100, SGST = 100, IGST = 0\<rparr>"

definition bad001_cgst90 :: canon where
  "bad001_cgst90 =
     \<lparr>GSTIN = Some ''INVALID123'', Invoice_Number = ''INV001'', Invoice_Date = Some 0,
      CGST = 90, SGST = 100, IGST = 0\<rparr>"

definition inv_b_c :: canon where
  "inv_b_c =
     \<lparr>GSTIN = Some ''27AAAPL1234C1Z5'', Invoice_Number = ''B_C'', Invoice_Date = None,
      CGST = 100, SGST = 100, IGST = 0\<rparr>"

definition other_vendor_c :: canon where
  "other_vendor_c =
     \<lparr>GSTIN = Some ''27AAAPL1234C1Z5_B'', Invoice_Number = ''C'', Invoice_Date = None,
      CGST = 100, SGST = 100, IGST = 0\<rparr>"

text \<open>A purchase row of an unregistered vendor: its GSTIN cell is empty.\<close>

definition unregistered :: canon where
  "unregistered =
     \<lparr>GSTIN = None, Invoice_Number = ''INV007'', Invoice_Date = Some 0,
      CGST = 0, SGST = 0, IGST = 0\<rparr>"

text \<open>
  Amounts at the edge of \<^verbatim>\<open>int64\<close>: against a 2B row of zeros the three differences
  add up to \<open>2 ^ 64\<close>.
\<close>

definition huge001 :: canon where
  "huge001 =
     \<lparr>GSTIN = Some ''27AAAPL1234C1Z5'', Invoice_Number = ''INV002'', Invoice_Date = Some 0,
      CGST = 9223372036854775807, SGST = 9223372036854775807, IGST = 2\<rparr>"

definition zero001 :: canon where
  "zero001 =
     \<lparr>GSTIN = Some ''27AAAPL1234C1Z5'', Invoice_Number = ''INV002'', Invoice_Date = Some 0,
      CGST = 0, SGST = 0, IGST = 0\<rparr>"

definition sheet_full :: table where
  "sheet_full =
     \<lparr>headers = [''GSTIN'', ''Invoice No'', '' Invoice Date'', ''CGST'', ''SGST'', ''IGST ''],
      body = [inv001]\<rparr>"

definition sheet_no_cgst :: table where
  "sheet_no_cgst =
     \<lparr>headers = [''GSTIN'', ''Invoice No'', ''Invoice Date'', ''SGST'', ''IGST''],
      body = [inv001]\<rparr>"

section \<open>Properties\<close>

subsection \<open>The GSTIN pattern\<close>

lemma class_digit: "in_class [(CHR ''0'', CHR ''9'')] = is_digit"
  by (rule ext) (simp add: in_class_def is_digit_def)

lemma class_upper: "in_class [(CHR ''A'', CHR ''Z'')] = is_upper"
  by (rule ext) (simp add: in_class_def is_upper_def)

lemma class_entity: "in_class [(CHR ''1'', CHR ''9''), (CHR ''A'', CHR ''Z'')] = is_entity_code"
  by (rule ext) (simp add: in_class_def is_entity_code_def is_upper_def)

lemma class_check: "in_class [(CHR ''0'', CHR ''9''), (CHR ''A'', CHR ''Z'')] = is_check_char"
  by (rule ext) (simp add: in_class_def is_check_char_def is_digit_def is_upper_def)

lemma list_all_take_drop:
  assumes le: "k + n \<le> length s"
  shows "list_all P (take n (drop k s)) = all_at P s k n"
proof -
  have "list_all P (take n (drop k s)) = (\<forall>j<n. P (s ! (k + j)))"
  proof -
    have "length s - k \<le> n \<Longrightarrow> length s - k = n" using le by arith
    then show ?thesis using le by (auto simp add: list_all_length min_def)
  qed
  also have "\<dots> = (\<forall>i\<in>set [k ..< k + n]. P (s ! i))"
  proof
    assume h: "\<forall>j<n. P (s ! (k + j))"
    show "\<forall>i\<in>set [k ..< k + n]. P (s ! i)"
    proof
      fix i assume "i \<in> set [k ..< k + n]"
      then have "i - k < n" "k + (i - k) = i" by auto
      with h show "P (s ! i)" by metis
    qed
  next
    assume "\<forall>i\<in>set [k ..< k + n]. P (s ! i)"
    then show "\<forall>j<n. P (s ! (k + j))" by simp
  qed
  finally show ?thesis by (simp add: all_at_def list_all_iff)
qed

lemma all_at_one: "all_at P s k (Suc 0) = P (s ! k)"
  by (simp add: all_at_def)

lemma rx_Cls:
  assumes pos: "0 < n"
  shows "rx_match (Cls cls n # rs) (drop k s) =
     (k + n \<le> length s \<and> all_at (in_class cls) s k n \<and> rx_match rs (drop (k + n) s))"
proof -
  have "(n \<le> length (drop k s)) = (k + n \<le> length s)" using pos by auto
  then show ?thesis
    by (auto simp add: list_all_take_drop add.commute)
qed

lemma rx_Lit:
  "rx_match (Lit c # rs) (drop n s) =
     (n < length s \<and> s ! n = c \<and> rx_match rs (drop (Suc n) s))"
proof (cases "n < length s")
  case True
  then have "drop n s = s ! n # drop (Suc n) s" by (simp add: Cons_nth_drop_Suc)
  then show ?thesis using True by simp
next
  case False
  then show ?thesis by simp
qed

text \<open>What the matcher checks on a string, read off the pattern item by item.\<close>

lemma valid_gstin_unfold:
  "valid_gstin s \<longleftrightarrow>
     15 \<le> length s \<and> all_at is_digit s 0 2 \<and> all_at is_upper s 2 5 \<and>
      all_at is_digit s 7 4 \<and> is_upper (s ! 11) \<and> is_entity_code (s ! 12) \<and>
      s ! 13 = CHR ''Z'' \<and> is_check_char (s ! 14) \<and>
      (drop 15 s = [] \<or> drop 15 s = [CHR 0x0A])"
proof -
  have "valid_gstin s = rx_match gstin_pattern (drop 0 s)"
    by (simp add: valid_gstin_def)
  also have "\<dots> = (15 \<le> length s \<and> all_at is_digit s 0 2 \<and> all_at is_upper s 2 5 \<and>
      all_at is_digit s 7 4 \<and> is_upper (s ! 11) \<and> is_entity_code (s ! 12) \<and>
      s ! 13 = CHR ''Z'' \<and> is_check_char (s ! 14) \<and>
      (drop 15 s = [] \<or> drop 15 s = [CHR 0x0A]))"
    unfolding gstin_pattern_def
    apply (simp only: rx_Cls rx_Lit zero_less_numeral zero_less_one rx_match.simps(4)
        rx_match.simps(1))
    apply (simp add: all_at_one class_digit class_upper class_entity class_check
        numeral_2_eq_2[symmetric])
    apply auto
    done
  finally show ?thesis .
qed

text \<open>
  A well-formed GSTIN followed by one newline is accepted as well: \<^verbatim>\<open>$\<close> matches before
  a final newline.
\<close>

lemma valid_gstin_trailing_newline:
  assumes "gstin_format t"
  shows "valid_gstin (t @ [CHR 0x0A])"
proof -
  have len: "length t = 15" using assms by (simp add: gstin_format_def)
  have nth: "\<And>i. i < 15 \<Longrightarrow> (t @ [CHR 0x0A]) ! i = t ! i"
    using len by (simp add: nth_append)
  have at: "\<And>P k n. k + n \<le> 15 \<Longrightarrow> all_at P (t @ [CHR 0x0A]) k n = all_at P t k n"
    using len by (auto simp add: all_at_def list_all_iff nth_append)
  show ?thesis
    using assms len by (simp add: valid_gstin_unfold gstin_format_def nth at)
qed

lemmas gstin_eval =
  valid_gstin_def gstin_pattern_def in_class_def gstin_format_def spec_gstin_format_def
  all_at_def is_digit_def is_upper_def is_lower_def is_alnum_def is_entity_code_def
  is_check_char_def ends_with_newline_def upt_rec

lemma inv001_valid: "valid_gstin ''27AAAPL1234C1Z5''"
  by (simp add: gstin_eval)

lemma invalid123_invalid: "\<not> valid_gstin ''INVALID123''"
  by (simp add: gstin_eval)

text \<open>
  Claim C5, as stated: \<open>valid_gstin\<close> accepts exactly the 15-character strings of 2
  digits, 5 uppercase letters, 4 digits, 1 uppercase letter, 1 alphanumeric character,
  \<open>Z\<close>, 1 alphanumeric character. It fails: \<^verbatim>\<open>27AAAPL1234C0Z5\<close> has that form (its 13th
  character \<open>0\<close> is alphanumeric) and is rejected, because the class of the 13th
  character is \<^verbatim>\<open>[1-9A-Z]\<close>.
\<close>

theorem valid_gstin_rejects_zero_entity_code:
  "spec_gstin_format ''27AAAPL1234C0Z5'' \<and> \<not> valid_gstin ''27AAAPL1234C0Z5''"
  by (simp add: gstin_eval)

text \<open>
  Claim C5, amended: on a string that does not end with a newline, \<open>valid_gstin\<close>
  accepts exactly the 15-character strings of 2 digits, 5 uppercase letters, 4 digits,
  1 uppercase letter, 1 character that is a digit from 1 to 9 or an uppercase letter, the
  letter \<open>Z\<close>, and 1 character that is a digit or an uppercase letter. It is a predicate:
  both scripts copy the GSTIN of the purchase row into the classified row unchanged.
\<close>

theorem valid_gstin_accepts_pattern_format:
  assumes "\<not> ends_with_newline s"
  shows "valid_gstin s = gstin_format s \<and>
         GSTIN (app_classify d row) = GSTIN row \<and>
         GSTIN (app2_classify dt m) = GSTIN (left m)"
proof -
  have "drop 15 s \<noteq> [CHR 0x0A]"
  proof
    assume d: "drop 15 s = [CHR 0x0A]"
    have "s = take 15 s @ drop 15 s" by simp
    with d have "s = take 15 s @ [CHR 0x0A]" by simp
    then have "s \<noteq> [] \<and> last s = CHR 0x0A"
      by (metis last_snoc snoc_eq_iff_butlast)
    with assms show False by (simp add: ends_with_newline_def)
  qed
  then have "valid_gstin s = gstin_format s"
    by (auto simp add: valid_gstin_unfold gstin_format_def)
  moreover have "GSTIN (app_classify d row) = GSTIN row"
    by (simp add: app_classify_def)
  moreover have "GSTIN (app2_classify dt m) = GSTIN (left m)"
    by (simp add: app2_classify_def)
  ultimately show ?thesis by simp
qed

theorem valid_gstin_accepts_pattern_format_witness:
  "\<not> ends_with_newline ''27AAAPL1234C1Z5'' \<and> gstin_format ''27AAAPL1234C1Z5'' \<and>
   valid_gstin ''27AAAPL1234C1Z5'' \<and>
   \<not> ends_with_newline ''27AAAPL1234C0Z5'' \<and> \<not> gstin_format ''27AAAPL1234C0Z5'' \<and>
   \<not> valid_gstin ''27AAAPL1234C0Z5''"
proof -
  have a: "\<not> ends_with_newline ''27AAAPL1234C1Z5''" by (simp add: ends_with_newline_def)
  have b: "\<not> ends_with_newline ''27AAAPL1234C0Z5''" by (simp add: ends_with_newline_def)
  have fa: "gstin_format ''27AAAPL1234C1Z5''" by (simp add: gstin_eval)
  have fb: "\<not> gstin_format ''27AAAPL1234C0Z5''" by (simp add: gstin_eval)
  show ?thesis
    using a b fa fb valid_gstin_accepts_pattern_format [OF a]
      valid_gstin_accepts_pattern_format [OF b]
    by simp
qed

subsection \<open>Whole numbers in \<^verbatim>\<open>int64\<close> and \<^verbatim>\<open>float64\<close>\<close>

lemma wrap64_id: "- (2 ^ 63) \<le> x \<Longrightarrow> x < 2 ^ 63 \<Longrightarrow> wrap64 x = x"
  by (simp add: wrap64_def)

lemma bit_length_le: "x < 2 ^ k \<Longrightarrow> bit_length x \<le> k"
proof (induction k arbitrary: x)
  case 0
  then have "x \<le> 0" by simp
  then show ?case by (subst bit_length.simps) simp
next
  case (Suc k)
  show ?case
  proof (cases "x \<le> 0")
    case True
    then show ?thesis by (subst bit_length.simps) simp
  next
    case False
    from Suc.prems have "x div 2 < 2 ^ k" by simp
    from Suc.IH [OF this] False show ?thesis by (subst bit_length.simps) simp
  qed
qed

lemma f64_id: "\<bar>x\<bar> < 2 ^ 53 \<Longrightarrow> f64 x = x"
proof -
  assume "\<bar>x\<bar> < 2 ^ 53"
  then have "bit_length \<bar>x\<bar> \<le> 53" by (rule bit_length_le)
  then show ?thesis by (simp add: f64_def round_half_even_def)
qed

text \<open>On small amounts a cell of either column type holds the exact difference.\<close>

lemma abs_diff_small:
  assumes "\<bar>sint a\<bar> < 2 ^ 50" and "\<bar>sint y\<bar> < 2 ^ 50"
  shows "abs_diff_fillna dt a (Some y) = \<bar>sint a - sint y\<bar>"
proof (cases dt)
  case Int64
  have "wrap64 (sint a - sint y) = sint a - sint y"
    using assms by (intro wrap64_id) simp_all
  moreover have "wrap64 \<bar>sint a - sint y\<bar> = \<bar>sint a - sint y\<bar>"
    using assms by (intro wrap64_id) simp_all
  ultimately show ?thesis using Int64 by (simp add: abs_diff_fillna_def)
next
  case Float64
  have "f64 (sint a) = sint a" "f64 (sint y) = sint y"
    using assms by (simp_all add: f64_id)
  moreover have "f64 (sint a - sint y) = sint a - sint y"
    using assms by (intro f64_id) simp
  ultimately show ?thesis using Float64 by (simp add: abs_diff_fillna_def)
qed

lemma add_col_small:
  assumes "0 \<le> x" and "0 \<le> y" and "x + y < 2 ^ 53"
  shows "add_col dt x y = x + y"
proof (cases dt)
  case Int64
  have "wrap64 (x + y) = x + y" using assms by (intro wrap64_id) simp_all
  then show ?thesis using Int64 by (simp add: add_col_def)
next
  case Float64
  have "f64 (x + y) = x + y" using assms by (intro f64_id) simp
  then show ?thesis using Float64 by (simp add: add_col_def)
qed

lemma Tax_Diff_matched:
  assumes "small_amounts p" and "small_amounts r"
  shows "Tax_Diff dt (matched p r) = tax_diff p r"
proof -
  let ?c = "\<bar>sint (CGST p) - sint (CGST r)\<bar>"
  let ?s = "\<bar>sint (SGST p) - sint (SGST r)\<bar>"
  let ?i = "\<bar>sint (IGST p) - sint (IGST r)\<bar>"
  have c: "abs_diff_fillna dt (CGST p) (Some (CGST r)) = ?c"
    and s: "abs_diff_fillna dt (SGST p) (Some (SGST r)) = ?s"
    and i: "abs_diff_fillna dt (IGST p) (Some (IGST r)) = ?i"
    using assms by (simp_all add: small_amounts_def abs_diff_small)
  have bc: "?c < 2 ^ 51" and bs: "?s < 2 ^ 51" and bi: "?i < 2 ^ 51"
    using assms unfolding small_amounts_def by simp_all arith+
  have cs: "add_col dt ?c ?s = ?c + ?s"
    using bc bs by (intro add_col_small) simp_all
  have "add_col dt (?c + ?s) ?i = ?c + ?s + ?i"
    using bc bs bi by (intro add_col_small) simp_all
  then show ?thesis
    by (simp add: Tax_Diff_def matched_def c s i cs tax_diff_def)
qed

text \<open>
  Beyond small amounts the \<^verbatim>\<open>int64\<close> sum of \<^verbatim>\<open>app2.py\<close> can wrap to 0 where the exact
  sum of \<^verbatim>\<open>app.py\<close> is not 0.
\<close>

lemma Tax_Diff_wraps:
  "tax_diff huge001 zero001 = 2 ^ 64 \<and> Tax_Diff Int64 (matched huge001 zero001) = 0"
  by (simp add: tax_diff_def Tax_Diff_def matched_def abs_diff_fillna_def add_col_def wrap64_def
      huge001_def zero001_def)

subsection \<open>The two engines\<close>

lemma purchase_fields_app [simp]: "purchase_fields (app_classify d p) = p"
  by (simp add: purchase_fields_def app_classify_def)

lemma purchase_fields_app2 [simp]: "purchase_fields (app2_classify dt m) = left m"
  by (simp add: purchase_fields_def app2_classify_def)

lemma outcome_app [simp]:
  "Status (app_classify d p) = fst (app_status d p)"
  "Remark (app_classify d p) = snd (app_status d p)"
  by (simp_all add: app_classify_def)

lemma outcome_app2 [simp]:
  "Status (app2_classify dt m) = fst (app2_status dt m)"
  "Remark (app2_classify dt m) = snd (app2_status dt m)"
  by (simp_all add: app2_classify_def)

lemma filter_key_distinct:
  "distinct (map f xs) \<Longrightarrow> x \<in> set xs \<Longrightarrow> filter (\<lambda>y. f y = f x) xs = [x]"
proof (induction xs)
  case Nil
  then show ?case by simp
next
  case (Cons a xs)
  show ?case
  proof (cases "a = x")
    case True
    have "filter (\<lambda>y. f y = f x) xs = []"
    proof -
      have "f x \<notin> f ` set xs" using Cons.prems(1) True by simp
      then have "\<forall>y\<in>set xs. f y \<noteq> f x" by (metis imageI)
      then show ?thesis by (simp add: filter_empty_conv)
    qed
    with True show ?thesis by simp
  next
    case False
    with Cons.prems have x: "x \<in> set xs" by simp
    then have "f a \<noteq> f x" using Cons.prems(1) by auto
    with Cons.IH x Cons.prems(1) show ?thesis by simp
  qed
qed


lemma map_of_keys_None:
  "(map_of (map (\<lambda>r. (f r, r)) xs) k = None) = (k \<notin> f ` set xs)"
  by (simp add: map_of_eq_None_iff image_image)

lemma app_engine_distinct:
  "distinct (map KEY b2b) \<Longrightarrow>
     app_engine purchase b2b =
       Inr (map (app_classify (map_of (map (\<lambda>r. (KEY r, r)) b2b))) purchase)"
  by (simp add: app_engine_def b2b_dict_def)

lemma app_engine_Inr:
  "app_engine purchase b2b = Inr df \<Longrightarrow>
     distinct (map KEY b2b) \<and>
     df = map (app_classify (map_of (map (\<lambda>r. (KEY r, r)) b2b))) purchase"
  by (auto simp add: app_engine_def b2b_dict_def split: if_splits)

lemma app_engine_duplicate:
  "\<not> distinct (map KEY b2b) \<Longrightarrow> app_engine purchase b2b = Inl ValueError"
  by (simp add: app_engine_def b2b_dict_def)

lemma outcomes_app_list:
  "outcomes (map (app_classify d) purchase) p = map (app_status d) (filter (\<lambda>q. q = p) purchase)"
  by (induction purchase) (simp_all add: outcomes_def)

lemma outcomes_app:
  "p \<in> set purchase \<Longrightarrow> set (outcomes (map (app_classify d) purchase) p) = {app_status d p}"
  by (auto simp add: outcomes_app_list)

lemma left_merge_rows: "m \<in> set (merge_rows b2b p) \<Longrightarrow> left m = p"
  by (auto simp add: merge_rows_def unmatched_def matched_def split: list.splits)

lemma merge_rows_nonempty: "merge_rows b2b p \<noteq> []"
  by (simp add: merge_rows_def split: list.splits)

lemma outcomes_append: "outcomes (xs @ ys) p = outcomes xs p @ outcomes ys p"
  by (simp add: outcomes_def)

lemma outcomes_merge_rows:
  "outcomes (map (app2_classify dt) (merge_rows b2b q)) p =
     (if q = p then map (app2_status dt) (merge_rows b2b q) else [])"
proof -
  have "filter (\<lambda>r. purchase_fields r = p) (map (app2_classify dt) (merge_rows b2b q)) =
        (if q = p then map (app2_classify dt) (merge_rows b2b q) else [])"
    by (auto simp add: filter_empty_conv filter_id_conv dest: left_merge_rows)
  then show ?thesis by (simp add: outcomes_def)
qed

text \<open>
  The classified rows of a purchase row \<open>p\<close> in the output of \<^verbatim>\<open>app2.py\<close>: for every
  occurrence of \<open>p\<close> in the purchase data, the rows the merge made of it.
\<close>

lemma outcomes_classified:
  "outcomes (map (app2_classify dt) (merge_left purchase b2b)) p =
     concat (map (\<lambda>q. map (app2_status dt) (merge_rows b2b q)) (filter (\<lambda>q. q = p) purchase))"
proof (induction purchase)
  case Nil
  then show ?case by (simp add: merge_left_def outcomes_def)
next
  case (Cons q qs)
  have "merge_left (q # qs) b2b = merge_rows b2b q @ merge_left qs b2b"
    by (simp add: merge_left_def)
  then show ?case using Cons.IH
    by (simp add: outcomes_append outcomes_merge_rows)
qed

lemma outcomes_app2_list:
  "outcomes (app2_engine purchase b2b) p =
     concat (map (\<lambda>q. map (app2_status (dtype_2B (merge_left purchase b2b))) (merge_rows b2b q))
       (filter (\<lambda>q. q = p) purchase))"
  by (simp add: app2_engine_def Let_def outcomes_classified)

lemma outcomes_app2:
  assumes "p \<in> set purchase"
  shows "set (outcomes (app2_engine purchase b2b) p) =
           app2_status (dtype_2B (merge_left purchase b2b)) ` set (merge_rows b2b p)"
  using assms by (auto simp add: outcomes_app2_list)

lemma merge_rows_missing:
  "KEY p \<notin> KEY ` set b2b \<Longrightarrow> merge_rows b2b p = [unmatched p]"
proof -
  assume "KEY p \<notin> KEY ` set b2b"
  then have "\<forall>b\<in>set b2b. KEY b \<noteq> KEY p" by (metis imageI)
  then have "filter (\<lambda>b. KEY b = KEY p) b2b = []"
    by (simp add: filter_empty_conv)
  then show ?thesis by (simp add: merge_rows_def)
qed

lemma merge_rows_distinct:
  assumes "distinct (map KEY b2b)" "r \<in> set b2b" "KEY r = KEY p"
  shows "merge_rows b2b p = [matched p r]"
proof -
  have "filter (\<lambda>b. KEY b = KEY r) b2b = [r]"
    using assms(1,2) by (rule filter_key_distinct)
  then show ?thesis using assms(3) by (simp add: merge_rows_def)
qed

lemma merge_rows_single:
  assumes "distinct (map KEY b2b)"
  shows "map left (merge_rows b2b p) = [p]"
proof (cases "KEY p \<in> KEY ` set b2b")
  case True
  then obtain r where "r \<in> set b2b" "KEY r = KEY p" by auto
  with assms have "merge_rows b2b p = [matched p r]" by (rule merge_rows_distinct)
  then show ?thesis by (simp add: matched_def)
next
  case False
  then show ?thesis by (simp add: merge_rows_missing unmatched_def)
qed

lemma app2_status_invalid:
  "\<not> GSTIN_Valid (left m) \<Longrightarrow> app2_status dt m = (''Invalid GSTIN'', '''')"
  by (simp add: app2_status_def)

lemma app2_status_unmatched:
  "GSTIN_Valid p \<Longrightarrow> app2_status dt (unmatched p) = (''Missing in 2B'', ''Invoice not in 2B'')"
  by (simp add: app2_status_def unmatched_def)

lemma app2_status_matched:
  "GSTIN_Valid p \<Longrightarrow> small_amounts p \<Longrightarrow> small_amounts r \<Longrightarrow>
     app2_status dt (matched p r) =
       (if tax_diff p r \<noteq> 0 then (''Mismatch'', ''Tax Difference'') else (''Matched'', ''''))"
  using Tax_Diff_matched [of p r dt] by (simp add: app2_status_def matched_def)

lemma app_status_invalid:
  "\<not> GSTIN_Valid p \<Longrightarrow> app_status d p = (''Invalid GSTIN'', '''')"
  by (simp add: app_status_def)

lemma str_int_10: "str_int 10 = ''10''"
  by (simp add: str_int_def)

lemma inv001_facts:
  "GSTIN_Valid inv001" "KEY inv001_cgst90 = KEY inv001"
  "tax_diff inv001 inv001_cgst90 = 10" "tax_diff inv001 inv001 = 0"
  "small_amounts inv001" "small_amounts inv001_cgst90"
  by (simp_all add: inv001_def inv001_cgst90_def inv001_valid KEY_def tax_diff_def
      GSTIN_Valid_def str_cell_def small_amounts_def)

lemma bad001_facts:
  "\<not> GSTIN_Valid bad001" "KEY bad001_cgst90 = KEY bad001"
  by (simp_all add: bad001_def bad001_cgst90_def invalid123_invalid KEY_def GSTIN_Valid_def
      str_cell_def)

lemma unregistered_invalid: "\<not> GSTIN_Valid unregistered"
  by (simp add: unregistered_def GSTIN_Valid_def str_cell_def gstin_eval)

subsection \<open>The key\<close>

text \<open>
  Claim C10: the key is not injective on (GSTIN, invoice number) pairs. The pairs
  (\<^verbatim>\<open>27A\<close>, \<^verbatim>\<open>B_C\<close>) and (\<^verbatim>\<open>27A_B\<close>, \<^verbatim>\<open>C\<close>) differ in both components and have the
  same key; and both scripts match the purchase row of vendor \<^verbatim>\<open>27AAAPL1234C1Z5\<close>,
  invoice \<^verbatim>\<open>B_C\<close>, against the 2B row of GSTIN \<^verbatim>\<open>27AAAPL1234C1Z5_B\<close>, invoice \<^verbatim>\<open>C\<close>,
  and report it as matched.
\<close>

theorem join_key_not_injective:
  "join_key ''27A'' ''B_C'' = join_key ''27A_B'' ''C'' \<and>
   ''27A'' \<noteq> ''27A_B'' \<and> ''B_C'' \<noteq> ''C'' \<and>
   \<not> inj (\<lambda>(gstin, invoice_number). join_key gstin invoice_number) \<and>
   GSTIN inv_b_c \<noteq> GSTIN other_vendor_c \<and>
   Invoice_Number inv_b_c \<noteq> Invoice_Number other_vendor_c \<and>
   KEY inv_b_c = KEY other_vendor_c \<and>
   (\<exists>df. app_engine [inv_b_c] [other_vendor_c] = Inr df \<and> map Status df = [''Matched'']) \<and>
   map Status (app2_engine [inv_b_c] [other_vendor_c]) = [''Matched'']"
proof -
  have e: "join_key ''27A'' ''B_C'' = join_key ''27A_B'' ''C''"
    by (simp add: join_key_def)
  have ninj: "\<not> inj (\<lambda>(gstin, invoice_number). join_key gstin invoice_number)"
  proof
    assume "inj (\<lambda>(gstin, invoice_number). join_key gstin invoice_number)"
    then have "(''27A'', ''B_C'') = (''27A_B'', ''C'')"
      using e by (auto dest!: injD[where x="(''27A'', ''B_C'')" and y="(''27A_B'', ''C'')"])
    then show False by simp
  qed
  have v: "GSTIN_Valid inv_b_c"
    by (simp add: inv_b_c_def GSTIN_Valid_def str_cell_def inv001_valid)
  have k: "KEY inv_b_c = KEY other_vendor_c"
    by (simp add: KEY_def join_key_def str_cell_def inv_b_c_def other_vendor_c_def)
  have td: "tax_diff inv_b_c other_vendor_c = 0"
    by (simp add: tax_diff_def inv_b_c_def other_vendor_c_def)
  have sm: "small_amounts inv_b_c" "small_amounts other_vendor_c"
    by (simp_all add: small_amounts_def inv_b_c_def other_vendor_c_def)
  have a1: "app_engine [inv_b_c] [other_vendor_c] = Inr [app_classify [KEY other_vendor_c \<mapsto> other_vendor_c] inv_b_c]"
    by (simp add: app_engine_def b2b_dict_def)
  have a2: "Status (app_classify [KEY other_vendor_c \<mapsto> other_vendor_c] inv_b_c) = ''Matched''"
    using v k td by (simp add: app_status_def)
  have m: "merge_left [inv_b_c] [other_vendor_c] = [matched inv_b_c other_vendor_c]"
    using k by (simp add: merge_left_def merge_rows_def)
  have b1: "map Status (app2_engine [inv_b_c] [other_vendor_c]) = [''Matched'']"
    using v td sm by (simp add: app2_engine_def m app2_status_matched)
  have g: "GSTIN inv_b_c \<noteq> GSTIN other_vendor_c"
    "Invoice_Number inv_b_c \<noteq> Invoice_Number other_vendor_c"
    by (simp_all add: inv_b_c_def other_vendor_c_def)
  show ?thesis
    using e ninj g k a1 a2 b1 by simp
qed

subsection \<open>Classification\<close>




text \<open>
  The bound on the amounts is needed for \<^verbatim>\<open>app2.py\<close>: at the edge of \<^verbatim>\<open>int64\<close> its sum
  wraps to 0 and the row is reported as matched, where \<^verbatim>\<open>app.py\<close> reports a mismatch.
\<close>

lemma int64_sum_wraps_to_matched:
  "map Status (app2_engine [huge001] [zero001]) = [''Matched''] \<and>
   (\<exists>df. app_engine [huge001] [zero001] = Inr df \<and> map Status df = [''Mismatch''])"
proof -
  have v: "GSTIN_Valid huge001"
    by (simp add: huge001_def GSTIN_Valid_def str_cell_def inv001_valid)
  have k: "KEY zero001 = KEY huge001"
    by (simp add: KEY_def huge001_def zero001_def)
  have m: "merge_left [huge001] [zero001] = [matched huge001 zero001]"
    using k by (simp add: merge_left_def merge_rows_def)
  have dt: "dtype_2B [matched huge001 zero001] = Int64"
    by (simp add: dtype_2B_def matched_def)
  have "app2_status Int64 (matched huge001 zero001) = (''Matched'', '''')"
    using v Tax_Diff_wraps by (simp add: app2_status_def matched_def)
  then have a2: "map Status (app2_engine [huge001] [zero001]) = [''Matched'']"
    by (simp add: app2_engine_def m dt)
  have a1: "app_engine [huge001] [zero001] = Inr [app_classify [KEY zero001 \<mapsto> zero001] huge001]"
    by (simp add: app_engine_def b2b_dict_def)
  have "fst (app_status [KEY zero001 \<mapsto> zero001] huge001) = ''Mismatch''"
    using v k Tax_Diff_wraps by (simp add: app_status_def)
  with a1 a2 show ?thesis by simp
qed

text \<open>
  Claim C2: a purchase row whose GSTIN fails the format check is classified
  \<^verbatim>\<open>Invalid GSTIN\<close> with an empty remark, whatever the 2B data holds for its key: every
  classified row of such a purchase row has this status and remark, and there is one.
\<close>

theorem invalid_gstin_precedence:
  assumes "p \<in> set purchase" and "\<not> GSTIN_Valid p"
  shows "(\<forall>df. app_engine purchase b2b = Inr df \<longrightarrow>
            set (outcomes df p) = {(''Invalid GSTIN'', '''')}) \<and>
         set (outcomes (app2_engine purchase b2b) p) = {(''Invalid GSTIN'', '''')}"
proof -
  let ?dt = "dtype_2B (merge_left purchase b2b)"
  have "set (outcomes df p) = {(''Invalid GSTIN'', '''')}"
    if "app_engine purchase b2b = Inr df" for df
  proof -
    from that have "df = map (app_classify (map_of (map (\<lambda>r. (KEY r, r)) b2b))) purchase"
      by (simp add: app_engine_Inr)
    then show ?thesis
      using assms by (simp add: outcomes_app app_status_invalid)
  qed
  moreover have "set (outcomes (app2_engine purchase b2b) p) = {(''Invalid GSTIN'', '''')}"
  proof -
    have "\<forall>m\<in>set (merge_rows b2b p). app2_status ?dt m = (''Invalid GSTIN'', '''')"
      using assms(2) by (auto dest: left_merge_rows simp add: app2_status_invalid)
    moreover obtain m where "m \<in> set (merge_rows b2b p)"
      using merge_rows_nonempty [of b2b p] by (cases "merge_rows b2b p") auto
    ultimately have "app2_status ?dt ` set (merge_rows b2b p) = {(''Invalid GSTIN'', '''')}"
      by (auto simp add: image_iff)
    then show ?thesis using assms(1) by (simp add: outcomes_app2)
  qed
  ultimately show ?thesis by simp
qed

theorem invalid_gstin_precedence_witness:
  "bad001 \<in> set [bad001] \<and> \<not> GSTIN_Valid bad001 \<and>
   KEY bad001_cgst90 = KEY bad001 \<and> CGST bad001_cgst90 \<noteq> CGST bad001 \<and>
   (\<exists>df. app_engine [bad001] [bad001_cgst90] = Inr df \<and>
      set (outcomes df bad001) = {(''Invalid GSTIN'', '''')}) \<and>
   set (outcomes (app2_engine [bad001] [bad001_cgst90]) bad001) = {(''Invalid GSTIN'', '''')} \<and>
   set (outcomes (app2_engine [bad001] []) bad001) = {(''Invalid GSTIN'', '''')}"
proof -
  have a: "bad001 \<in> set [bad001]" by simp
  have e: "app_engine [bad001] [bad001_cgst90] =
      Inr (map (app_classify (map_of (map (\<lambda>r. (KEY r, r)) [bad001_cgst90]))) [bad001])"
    by (rule app_engine_distinct) simp
  have c: "CGST bad001_cgst90 \<noteq> CGST bad001"
    by (simp add: bad001_def bad001_cgst90_def)
  show ?thesis
    using invalid_gstin_precedence [OF a bad001_facts(1), of "[bad001_cgst90]"]
      invalid_gstin_precedence [OF a bad001_facts(1), of "[]"]
      e c bad001_facts
    by simp
qed

subsection \<open>Cardinality and duplicate 2B keys\<close>

lemma merge_left_fields:
  assumes "distinct (map KEY b2b)"
  shows "map left (merge_left purchase b2b) = purchase"
proof (induction purchase)
  case Nil
  then show ?case by (simp add: merge_left_def)
next
  case (Cons p ps)
  have "merge_left (p # ps) b2b = merge_rows b2b p @ merge_left ps b2b"
    by (simp add: merge_left_def)
  then show ?case using Cons.IH merge_rows_single [OF assms, of p] by simp
qed

lemma length_merge_rows:
  "length (merge_rows b2b p) = max 1 (count_list (map KEY b2b) (KEY p))"
proof -
  have "count_list (map KEY b2b) (KEY p) = length (filter (\<lambda>b. KEY b = KEY p) b2b)"
    by (induction b2b) simp_all
  then show ?thesis
    by (simp add: merge_rows_def split: list.splits)
qed

lemma length_merge_left:
  "length (merge_left purchase b2b) =
     sum_list (map (\<lambda>p. max 1 (count_list (map KEY b2b) (KEY p))) purchase)"
  by (induction purchase) (simp_all add: merge_left_def length_merge_rows)

lemma length_app2_engine:
  "length (app2_engine purchase b2b) =
     sum_list (map (\<lambda>p. max 1 (count_list (map KEY b2b) (KEY p))) purchase)"
  by (simp add: app2_engine_def Let_def length_merge_left)



text \<open>
  Claim C3, as stated: the output has one classified row per purchase row, in order,
  even when the 2B data holds duplicate keys. It fails: with one purchase row and two 2B
  rows of its key, the left merge of \<^verbatim>\<open>app2.py\<close> yields two classified rows, and
  \<^verbatim>\<open>app.py\<close> yields none, since \<^verbatim>\<open>to_dict("index")\<close> raises \<^verbatim>\<open>ValueError\<close>.
\<close>

theorem duplicate_reference_keys_break_cardinality:
  "KEY inv001_cgst90 = KEY inv001 \<and>
   length (app2_engine [inv001] [inv001_cgst90, inv001]) = 2 \<and>
   app_engine [inv001] [inv001_cgst90, inv001] = Inl ValueError"
proof -
  have "length (app2_engine [inv001] [inv001_cgst90, inv001]) = 2"
    using inv001_facts(2) by (simp add: length_app2_engine)
  moreover have "app_engine [inv001] [inv001_cgst90, inv001] = Inl ValueError"
    using inv001_facts(2) by (simp add: app_engine_duplicate)
  ultimately show ?thesis using inv001_facts(2) by simp
qed

text \<open>
  Claim C3, amended: when the keys of the 2B rows are pairwise distinct, both scripts
  produce exactly one classified row per purchase row, with the six purchase fields
  unchanged and in the order of the purchase data (so the lengths agree).
\<close>

theorem classification_one_to_one:
  assumes "distinct (map KEY b2b)"
  shows "(\<exists>df. app_engine purchase b2b = Inr df \<and> map purchase_fields df = purchase) \<and>
         map purchase_fields (app2_engine purchase b2b) = purchase"
proof -
  have "map purchase_fields (map (app_classify d) purchase) = purchase" for d
    by (simp add: comp_def)
  then have "\<exists>df. app_engine purchase b2b = Inr df \<and> map purchase_fields df = purchase"
    using app_engine_distinct [OF assms] by simp
  moreover have "map purchase_fields (app2_engine purchase b2b) = purchase"
    using merge_left_fields [OF assms, of purchase]
    by (simp add: app2_engine_def Let_def comp_def)
  ultimately show ?thesis by simp
qed

theorem classification_one_to_one_witness:
  "distinct (map KEY [inv001_cgst90, inv_b_c]) \<and>
   (\<exists>df. app_engine [inv001, bad001, inv001] [inv001_cgst90, inv_b_c] = Inr df \<and>
         map purchase_fields df = [inv001, bad001, inv001]) \<and>
   map purchase_fields (app2_engine [inv001, bad001, inv001] [inv001_cgst90, inv_b_c]) =
     [inv001, bad001, inv001]"
proof -
  have d: "distinct (map KEY [inv001_cgst90, inv_b_c])"
    by (simp add: KEY_def join_key_def str_cell_def inv001_cgst90_def inv_b_c_def)
  from d classification_one_to_one [OF d, of "[inv001, bad001, inv001]"] show ?thesis
    by (rule conjI)
qed






text \<open>
  Claim C6, as stated: a purchase row with a valid GSTIN and no 2B row of its key has
  status MissingIn2B and the remark \<^verbatim>\<open>Invoice not available in GSTR-2B\<close>. It fails in
  \<^verbatim>\<open>app2.py\<close>, whose remark for the first scenario of the specification is
  \<^verbatim>\<open>Invoice not in 2B\<close>.
\<close>

theorem app2_missing_remark_differs:
  "GSTIN_Valid inv001 \<and> KEY inv001 \<notin> KEY ` set [] \<and>
   outcomes (app2_engine [inv001] []) inv001 = [(''Missing in 2B'', ''Invoice not in 2B'')] \<and>
   ''Invoice not in 2B'' \<noteq> ''Invoice not available in GSTR-2B''"
  using inv001_facts(1)
  by (simp add: outcomes_app2_list merge_rows_def app2_status_unmatched)

text \<open>
  Claim C6, amended: a purchase row with a valid GSTIN and no 2B row of its key has the
  status \<^verbatim>\<open>Missing in 2B\<close> in both scripts; the remark is
  \<^verbatim>\<open>Invoice not available in GSTR-2B\<close> in \<^verbatim>\<open>app.py\<close> and \<^verbatim>\<open>Invoice not in 2B\<close> in
  \<^verbatim>\<open>app2.py\<close>.
\<close>

theorem missing_in_2b_classification:
  assumes "p \<in> set purchase" and "GSTIN_Valid p" and "KEY p \<notin> KEY ` set b2b"
  shows "(\<forall>df. app_engine purchase b2b = Inr df \<longrightarrow>
            set (outcomes df p) = {(''Missing in 2B'', ''Invoice not available in GSTR-2B'')}) \<and>
         set (outcomes (app2_engine purchase b2b) p) = {(''Missing in 2B'', ''Invoice not in 2B'')}"
proof -
  let ?d = "map_of (map (\<lambda>r. (KEY r, r)) b2b)"
  have "?d (KEY p) = None"
    using assms(3) by (simp add: map_of_keys_None)
  then have st: "app_status ?d p = (''Missing in 2B'', ''Invoice not available in GSTR-2B'')"
    using assms(2) by (simp add: app_status_def)
  have "set (outcomes df p) = {(''Missing in 2B'', ''Invoice not available in GSTR-2B'')}"
    if "app_engine purchase b2b = Inr df" for df
  proof -
    from that have "df = map (app_classify ?d) purchase"
      by (simp add: app_engine_Inr)
    then show ?thesis using assms(1) st by (simp add: outcomes_app)
  qed
  moreover have "set (outcomes (app2_engine purchase b2b) p) =
      {(''Missing in 2B'', ''Invoice not in 2B'')}"
    using assms by (simp add: outcomes_app2 merge_rows_missing app2_status_unmatched)
  ultimately show ?thesis by simp
qed

theorem missing_in_2b_classification_witness:
  "inv001 \<in> set [inv001] \<and> GSTIN_Valid inv001 \<and> KEY inv001 \<notin> KEY ` set [inv_b_c] \<and>
   (\<exists>df. app_engine [inv001] [inv_b_c] = Inr df \<and>
      set (outcomes df inv001) = {(''Missing in 2B'', ''Invoice not available in GSTR-2B'')}) \<and>
   set (outcomes (app2_engine [inv001] [inv_b_c]) inv001) =
     {(''Missing in 2B'', ''Invoice not in 2B'')}"
proof -
  have a: "inv001 \<in> set [inv001]" by simp
  have k: "KEY inv001 \<notin> KEY ` set [inv_b_c]"
    by (simp add: KEY_def join_key_def str_cell_def inv001_def inv_b_c_def)
  have e: "app_engine [inv001] [inv_b_c] =
      Inr (map (app_classify (map_of (map (\<lambda>r. (KEY r, r)) [inv_b_c]))) [inv001])"
    by (rule app_engine_distinct) simp
  show ?thesis
    using missing_in_2b_classification [OF a inv001_facts(1) k] e a k inv001_facts(1)
    by simp
qed

subsection \<open>Missing columns\<close>

text \<open>
  \<^verbatim>\<open>app2.py\<close> checks the six required columns of both files before it computes
  anything: when one is missing, the run ends with a message that names a missing column
  and the file it is missing from.
\<close>

lemma app2_check_reports:
  "app2_check cols pc bc = Some e \<Longrightarrow>
     \<exists>d c. e = SchemaError d c \<and> c \<in> set cols \<and>
       c \<notin> set (case d of Purchase \<Rightarrow> pc | Reference \<Rightarrow> bc)"
proof (induction cols)
  case Nil
  then show ?case by simp
next
  case (Cons col cols)
  show ?case
  proof (cases "col \<notin> set pc")
    case True
    with Cons.prems have "e = SchemaError Purchase col" by simp
    with True show ?thesis by force
  next
    case pc: False
    show ?thesis
    proof (cases "col \<notin> set bc")
      case True
      with pc Cons.prems have "e = SchemaError Reference col" by simp
      with True show ?thesis by force
    next
      case False
      with pc Cons.prems have "app2_check cols pc bc = Some e" by simp
      from Cons.IH [OF this] show ?thesis by auto
    qed
  qed
qed

lemma app2_check_fails:
  "c \<in> set cols \<Longrightarrow> c \<notin> set pc \<or> c \<notin> set bc \<Longrightarrow> app2_check cols pc bc \<noteq> None"
  by (induction cols) auto

lemma app2_run_schema_error:
  assumes "c \<in> set required_cols"
    and "c \<notin> set (app2_columns purchase) \<or> c \<notin> set (app2_columns b2b)"
  shows "\<exists>d c'. app2_run purchase b2b = Inl (SchemaError d c') \<and> c' \<in> set required_cols \<and>
           c' \<notin> set (app2_columns (case d of Purchase \<Rightarrow> purchase | Reference \<Rightarrow> b2b))"
proof -
  obtain e where e: "app2_check required_cols (app2_columns purchase) (app2_columns b2b) = Some e"
    using app2_check_fails [OF assms] by auto
  from app2_check_reports [OF e] obtain d c' where
    "e = SchemaError d c'" "c' \<in> set required_cols"
    "c' \<notin> set (case d of Purchase \<Rightarrow> app2_columns purchase | Reference \<Rightarrow> app2_columns b2b)"
    by auto
  then show ?thesis using e by (cases d) (auto simp add: app2_run_def)
qed

text \<open>
  \<^verbatim>\<open>app.py\<close> checks \<^verbatim>\<open>Invoice_Date\<close> only. A run with any other required column
  missing ends as well, before any row is classified, but with the \<^verbatim>\<open>KeyError\<close> of the
  first read of that column.
\<close>

lemma first_missing_fails:
  "(d, c) \<in> set reads \<Longrightarrow> c \<notin> set (case d of Purchase \<Rightarrow> pc | Reference \<Rightarrow> bc) \<Longrightarrow>
     first_missing reads pc bc \<noteq> None"
  by (induction reads pc bc rule: first_missing.induct) auto

lemma first_missing_reports:
  "first_missing reads pc bc = Some e \<Longrightarrow> \<exists>c. e = KeyError c"
  by (induction reads pc bc rule: first_missing.induct) (auto split: if_splits)

lemma app_run_fails:
  assumes "c \<in> set required_cols"
    and "c \<notin> set (app_columns purchase) \<or> c \<notin> set (app_columns b2b)"
  shows "\<exists>e. app_run purchase b2b = Inl e"
proof (cases "''Invoice_Date'' \<in> set (app_columns purchase) \<and> ''Invoice_Date'' \<in> set (app_columns b2b)")
  case False
  then show ?thesis by (auto simp add: app_run_def)
next
  case True
  with assms have ne: "c \<noteq> ''Invoice_Date''" by auto
  obtain d where d: "c \<notin> set (case d of Purchase \<Rightarrow> app_columns purchase | Reference \<Rightarrow> app_columns b2b)"
    using assms(2) by (metis dataset.simps(3) dataset.simps(4))
  have "(d, c) \<in> set app_reads"
    using assms(1) ne by (cases d) (auto simp add: required_cols_def app_reads_def)
  from first_missing_fails [OF this d] True show ?thesis
    by (auto simp add: app_run_def)
qed

text \<open>
  Claim C7: when a required column cannot be resolved, the run fails with a schema error
  that names the missing column and the file. \<^verbatim>\<open>app2.py\<close> does so for all six columns;
  \<^verbatim>\<open>app.py\<close> does so for \<^verbatim>\<open>Invoice_Date\<close> only. For a sheet with no \<^verbatim>\<open>CGST\<close> column,
  given as the purchase file or as the 2B file, \<^verbatim>\<open>app.py\<close> ends with
  \<^verbatim>\<open>KeyError('CGST')\<close> in both cases, which does not tell the two files apart, where
  \<^verbatim>\<open>app2.py\<close> reports the column and the file.
\<close>

theorem app_missing_column_key_error:
  "''CGST'' \<in> set required_cols \<and> ''CGST'' \<notin> set (headers sheet_no_cgst) \<and>
   app_run sheet_no_cgst sheet_full = Inl (KeyError ''CGST'') \<and>
   app_run sheet_full sheet_no_cgst = Inl (KeyError ''CGST'') \<and>
   app2_run sheet_no_cgst sheet_full = Inl (SchemaError Purchase ''CGST'') \<and>
   app2_run sheet_full sheet_no_cgst = Inl (SchemaError Reference ''CGST'')"
proof -
  have c1: "app_columns sheet_no_cgst = [''GSTIN'', ''Invoice_Number'', ''Invoice_Date'', ''SGST'', ''IGST'']"
    by (simp add: app_columns_def sheet_no_cgst_def rename_def app_rename_map_def strip_def is_space_def)
  have c2: "app_columns sheet_full = [''GSTIN'', ''Invoice_Number'', ''Invoice_Date'', ''CGST'', ''SGST'', ''IGST'']"
    by (simp add: app_columns_def sheet_full_def rename_def app_rename_map_def strip_def is_space_def)
  have c3: "app2_columns sheet_no_cgst = [''GSTIN'', ''Invoice_Number'', ''Invoice_Date'', ''SGST'', ''IGST'']"
    by (simp add: app2_columns_def sheet_no_cgst_def rename_def app2_rename_map_def strip_def is_space_def)
  have c4: "app2_columns sheet_full = [''GSTIN'', ''Invoice_Number'', ''Invoice_Date'', ''CGST'', ''SGST'', ''IGST'']"
    by (simp add: app2_columns_def sheet_full_def rename_def app2_rename_map_def strip_def is_space_def)
  have "app_run sheet_no_cgst sheet_full = Inl (KeyError ''CGST'')"
    by (simp add: app_run_def c1 c2 app_reads_def)
  moreover have "app_run sheet_full sheet_no_cgst = Inl (KeyError ''CGST'')"
    by (simp add: app_run_def c1 c2 app_reads_def)
  moreover have "app2_run sheet_no_cgst sheet_full = Inl (SchemaError Purchase ''CGST'')"
    by (simp add: app2_run_def c3 c4 required_cols_def)
  moreover have "app2_run sheet_full sheet_no_cgst = Inl (SchemaError Reference ''CGST'')"
    by (simp add: app2_run_def c3 c4 required_cols_def)
  ultimately show ?thesis
    by (simp add: required_cols_def sheet_no_cgst_def)
qed



subsection \<open>Aggregation\<close>

lemma map_of_graph:
  "map_of (map (\<lambda>v. (v, f v)) ks) v = (if v \<in> set ks then Some (f v) else None)"
  by (induction ks) auto

lemma map_of_value_counts:
  "map_of (value_counts xs) v = (if v \<in> set xs then Some (count_list xs v) else None)"
  by (simp add: value_counts_def map_of_graph)

lemma count_list_map:
  "count_list (map f xs) y = length (filter (\<lambda>x. f x = y) xs)"
  by (induction xs) auto

lemma status_counts:
  "map_of (value_counts (map Status df)) s =
     (if s \<in> Status ` set df then Some (length (filter (\<lambda>r. Status r = s) df)) else None)"
  by (simp add: map_of_value_counts count_list_map)

text \<open>
  Claim C8, as stated: the status counts hold an entry for each of the four statuses,
  with value 0 for a status that no row has. It fails in both scripts: the counts are
  \<^verbatim>\<open>value_counts()\<close> of the status column, which lists only the values that occur. For
  one matched row there is no entry for \<^verbatim>\<open>Mismatch\<close>. (The dashboard cards, which
  count by filtering, do show 0 for \<^verbatim>\<open>Mismatch\<close> there, but they cover three of the
  four statuses only.)
\<close>

theorem status_counts_omit_absent_status:
  "(\<exists>df counts summary. app_engine [inv001] [inv001] = Inr df \<and>
      app_aggregate df = Inr (counts, summary) \<and> map_of counts ''Mismatch'' = None) \<and>
   map_of (fst (app2_aggregate (app2_engine [inv001] [inv001]))) ''Mismatch'' = None \<and>
   metrics (app2_engine [inv001] [inv001]) = (1, 1, 0, 0)"
proof -
  let ?d = "map_of (map (\<lambda>r. (KEY r, r)) [inv001])"
  have e: "app_engine [inv001] [inv001] = Inr [app_classify ?d inv001]"
    by (simp add: app_engine_distinct)
  have s1: "app_status ?d inv001 = (''Matched'', '''')"
    using inv001_facts by (simp add: app_status_def)
  have "map_of (value_counts (map Status [app_classify ?d inv001])) ''Mismatch'' = None"
    using s1 by (simp add: map_of_value_counts)
  then have a: "\<exists>df counts summary. app_engine [inv001] [inv001] = Inr df \<and>
      app_aggregate df = Inr (counts, summary) \<and> map_of counts ''Mismatch'' = None"
    using e by (simp add: app_aggregate_def)
  have "merge_rows [inv001] inv001 = [matched inv001 inv001]"
    by (simp add: merge_rows_def)
  then have ms: "map Status (app2_engine [inv001] [inv001]) = [''Matched'']"
    using inv001_facts by (simp add: app2_engine_def merge_left_def app2_status_matched)
  then have "map_of (value_counts (map Status (app2_engine [inv001] [inv001]))) ''Mismatch'' = None"
    by (simp add: map_of_value_counts)
  then have b: "map_of (fst (app2_aggregate (app2_engine [inv001] [inv001]))) ''Mismatch'' = None"
    by (simp add: app2_aggregate_def)
  have "length (map Status (app2_engine [inv001] [inv001])) = 1"
    by (simp only: ms) simp
  then have l: "length (app2_engine [inv001] [inv001]) = 1" by simp
  have c: "metrics (app2_engine [inv001] [inv001]) = (1, 1, 0, 0)"
    using l by (simp add: metrics_def count_list_map [symmetric] ms)
  from a b c show ?thesis by simp
qed

text \<open>
  Claim C8, amended: the status counts of both scripts hold an entry exactly for the
  statuses that occur in at least one classified row, each with the number of rows that
  have it; a status that occurs in no row has no entry.
\<close>

theorem status_counts_entries:
  assumes "app_aggregate df = Inr (counts, summary)"
  shows "map_of counts s =
           (if s \<in> Status ` set df then Some (length (filter (\<lambda>r. Status r = s) df))
            else None) \<and>
         map_of (fst (app2_aggregate df)) s =
           (if s \<in> Status ` set df then Some (length (filter (\<lambda>r. Status r = s) df))
            else None)"
proof -
  from assms have "counts = value_counts (map Status df)"
    by (simp add: app_aggregate_def split: if_splits)
  then show ?thesis
    by (simp add: app2_aggregate_def status_counts)
qed

theorem status_counts_entries_witness:
  "(\<exists>df counts summary. app_engine [inv001, bad001] [inv001_cgst90] = Inr df \<and>
      app_aggregate df = Inr (counts, summary) \<and>
      map_of counts ''Mismatch'' = Some 1 \<and> map_of counts ''Invalid GSTIN'' = Some 1 \<and>
      map_of counts ''Matched'' = None \<and> map_of counts ''Missing in 2B'' = None)"
proof -
  let ?d = "map_of (map (\<lambda>r. (KEY r, r)) [inv001_cgst90])"
  let ?df = "[app_classify ?d inv001, app_classify ?d bad001]"
  have e: "app_engine [inv001, bad001] [inv001_cgst90] = Inr ?df"
    by (simp add: app_engine_distinct)
  have s1: "app_status ?d inv001 = (''Mismatch'', ''Tax Difference = 10'')"
    using inv001_facts str_int_10 by (simp add: app_status_def)
  have s2: "app_status ?d bad001 = (''Invalid GSTIN'', '''')"
    using bad001_facts by (simp add: app_status_def)
  have a: "app_aggregate ?df = Inr (value_counts (map Status ?df), vendor_summary ?df)"
    by (simp add: app_aggregate_def)
  have "map_of (value_counts (map Status ?df)) ''Mismatch'' = Some 1 \<and>
        map_of (value_counts (map Status ?df)) ''Invalid GSTIN'' = Some 1 \<and>
        map_of (value_counts (map Status ?df)) ''Matched'' = None \<and>
        map_of (value_counts (map Status ?df)) ''Missing in 2B'' = None"
    using status_counts_entries [OF a, of "''Mismatch''"]
      status_counts_entries [OF a, of "''Invalid GSTIN''"]
      status_counts_entries [OF a, of "''Matched''"]
      status_counts_entries [OF a, of "''Missing in 2B''"] s1 s2
    by simp
  with e a show ?thesis by blast
qed








lemma GSTIN_app2_engine:
  "map GSTIN (app2_engine purchase b2b) = map (\<lambda>m. GSTIN (left m)) (merge_left purchase b2b)"
  by (simp add: app2_engine_def Let_def app2_classify_def)

lemma app2_sidebar_cells:
  "app2_sidebar df =
     (if None \<in> set (map GSTIN df) \<and> (\<exists>c\<in>set (map GSTIN df). c \<noteq> None)
      then Some TypeError else None)"
  by (auto simp add: app2_sidebar_def list_ex_iff image_iff) (metis option.exhaust)+


text \<open>
  With an empty GSTIN cell among filled ones \<^verbatim>\<open>app2.py\<close> does not reach its summary;
  \<^verbatim>\<open>app.py\<close> leaves the row out of the summary.
\<close>

lemma app2_dashboard_type_error:
  "app2_dashboard (app2_engine [inv001, unregistered] []) = Inl TypeError"
proof -
  have "map GSTIN (app2_engine [inv001, unregistered] []) = [GSTIN inv001, None]"
    by (simp add: GSTIN_app2_engine merge_left_def merge_rows_def unmatched_def
        unregistered_def)
  moreover have "GSTIN inv001 \<noteq> None" by (simp add: inv001_def)
  ultimately have "app2_sidebar (app2_engine [inv001, unregistered] []) = Some TypeError"
    by (simp only: app2_sidebar_cells) simp
  then show ?thesis by (simp add: app2_dashboard_def)
qed





end
